theory Spec2Isabelle
  imports Main
begin

section \<open>The PDF chatbot service of \<^verbatim>\<open>backend/app/main.py\<close>\<close>

text \<open>
  The service keeps a module-level dictionary \<^verbatim>\<open>vector_stores\<close> and an SQLite file
  \<^verbatim>\<open>chatbot.db\<close>. Its handlers are modelled as functions that take the state of the
  process and return the handler's result together with the new state. Everything the
  module imports from third-party packages (the PDF loader, the text splitter, FAISS, the
  retrieval chain with its language model, sqlite3, uuid, tempfile) is a field of an
  environment record: the handlers are verified for every behaviour of those packages,
  including every exception they may raise.
\<close>

subsection \<open>Exceptions and HTTP failures\<close>

text \<open>
  A raised instance of a subclass of \<^verbatim>\<open>Exception\<close>: the name of its class and the text
  that \<^verbatim>\<open>str(e)\<close> gives. (\<^verbatim>\<open>KeyboardInterrupt\<close> and \<^verbatim>\<open>SystemExit\<close>, which
  \<^verbatim>\<open>except Exception\<close> lets through, are not raised by any call of the module.)
\<close>

datatype exn = Exn (exn_class: string) (exn_str: string)

text \<open>
  What a handler raises to the web framework: an \<^verbatim>\<open>HTTPException\<close> built by the handler,
  or an exception that no handler of the module catches.
\<close>

datatype failure = HTTPException (status_code: nat) (detail: string) | Unhandled exn

subsection \<open>Values\<close>

text \<open>The values a metadata dictionary of a passage holds under a key.\<close>

datatype pyval = PInt int | PStr string

text \<open>
  A langchain \<^verbatim>\<open>Document\<close>. The handler asks \<^verbatim>\<open>hasattr(doc, 'metadata')\<close> before it
  reads the dictionary, so an object without the attribute is \<open>None\<close> here.
\<close>

record document =
  page_content :: string
  metadata :: "(string \<rightharpoonup> pyval) option"

text \<open>The dictionary a \<^verbatim>\<open>RetrievalQA\<close> chain returns with \<^verbatim>\<open>return_source_documents=True\<close>.\<close>

record qa_result =
  result :: string
  source_documents :: "document list"

text \<open>Values bound to the \<^verbatim>\<open>?\<close> placeholders of a statement, and the columns of a row.\<close>

datatype sqlval = SText string | STimestamp nat

type_synonym sql_call = "string \<times> sqlval list"

subsection \<open>Request and response models\<close>

record QuestionRequest =
  question :: string
  document_id :: "string option"

record UploadResponse =
  message :: string
  document_id :: string

record ChatResponse =
  answer :: string
  sources :: "string list"
  document_id :: string

text \<open>The part of FastAPI's \<^verbatim>\<open>UploadFile\<close> the handler reads.\<close>

record UploadFile =
  content_type :: "string option"
  content :: string

subsection \<open>The process state and the environment\<close>

text \<open>
  \<open>vector_stores\<close> is the module's dictionary; \<open>database\<close> the committed contents of
  \<^verbatim>\<open>chatbot.db\<close>; \<open>files\<close> the temporary files written; \<open>stdout\<close> the lines printed;
  \<open>background\<close> the calls queued on \<^verbatim>\<open>BackgroundTasks\<close>; \<open>sql_log\<close> every call of
  \<^verbatim>\<open>cursor.execute\<close> with its statement text and its bound parameters, in order;
  \<open>entropy\<close> counts the random draws made (\<^verbatim>\<open>uuid4\<close>, temporary file names);
  \<open>clock\<close> is what \<^verbatim>\<open>datetime.now()\<close> reads.
\<close>

record ('vs, 'db) state =
  vector_stores :: "string \<rightharpoonup> 'vs"
  database :: 'db
  files :: "string \<rightharpoonup> string"
  stdout :: "string list"
  background :: "(string \<times> string) list"
  sql_log :: "sql_call list"
  entropy :: nat
  clock :: nat

text \<open>
  The third-party calls. \<open>pdf_load fs path\<close> is \<^verbatim>\<open>PyPDFLoader(path).load()\<close>;
  \<open>split_documents c o docs\<close> is
  \<^verbatim>\<open>RecursiveCharacterTextSplitter(chunk_size=c, chunk_overlap=o).split_documents(docs)\<close>;
  \<open>faiss_from_documents\<close> is \<^verbatim>\<open>FAISS.from_documents(texts, embeddings)\<close>;
  \<open>retrieval_qa vs k q\<close> builds the chain over \<^verbatim>\<open>vs.as_retriever(search_kwargs={"k": k})\<close>
  and calls it on \<^verbatim>\<open>{"query": q}\<close>. \<open>sqlite_connect\<close> opens a connection on the
  committed database, \<open>sqlite_execute\<close> runs one statement on a connection and gives the
  rows and the connection after it, \<open>sqlite_commit\<close> gives the database the commit leaves.
  Each of them may raise instead.
\<close>

record ('vs, 'db) env =
  pdf_load :: "(string \<rightharpoonup> string) \<Rightarrow> string \<Rightarrow> exn + document list"
  split_documents :: "nat \<Rightarrow> nat \<Rightarrow> document list \<Rightarrow> exn + document list"
  faiss_from_documents :: "document list \<Rightarrow> exn + 'vs"
  retrieval_qa :: "'vs \<Rightarrow> nat \<Rightarrow> string \<Rightarrow> exn + qa_result"
  sqlite_connect :: "string \<Rightarrow> 'db \<Rightarrow> exn + 'db"
  sqlite_execute :: "string \<Rightarrow> sqlval list \<Rightarrow> 'db \<Rightarrow> exn + (sqlval list list \<times> 'db)"
  sqlite_commit :: "'db \<Rightarrow> exn + 'db"
  uuid4 :: "nat \<Rightarrow> string"
  named_temporary_file :: "nat \<Rightarrow> string \<Rightarrow> exn + string"

subsection \<open>Helpers of the Python runtime\<close>

text \<open>\<^verbatim>\<open>str\<close> of an integer: decimal digits, a minus sign for a negative one.\<close>

fun str_nat :: "nat \<Rightarrow> string" where
  "str_nat n =
     (if n < 10 then [''0123456789'' ! n]
      else str_nat (n div 10) @ [''0123456789'' ! (n mod 10)])"

declare str_nat.simps [simp del]

definition str_int :: "int \<Rightarrow> string" where
  "str_int i = (if i < 0 then CHR ''-'' # str_nat (nat (- i)) else str_nat (nat i))"

text \<open>\<^verbatim>\<open>v + 1\<close>: integer addition; a string operand raises \<^verbatim>\<open>TypeError\<close>.\<close>

definition add_one :: "pyval \<Rightarrow> exn + int" where
  \<open>add_one v =
     (case v of
        PInt p \<Rightarrow> Inr (p + 1)
      | PStr _ \<Rightarrow> Inl (Exn ''TypeError'' ''can only concatenate str (not "int") to str''))\<close>

text \<open>\<^verbatim>\<open>os.path.basename\<close>: what follows the last slash.\<close>

definition basename :: "string \<Rightarrow> string" where
  "basename p = rev (takeWhile (\<lambda>c. c \<noteq> CHR ''/'') (rev p))"

text \<open>\<^verbatim>\<open>row[i]\<close> on a row of a result set.\<close>

definition column :: "sqlval list \<Rightarrow> nat \<Rightarrow> exn + sqlval" where
  "column row i =
     (if i < length row then Inr (row ! i)
      else Inl (Exn ''IndexError'' ''tuple index out of range''))"

subsection \<open>process_document\<close>

text \<open>The body of the \<^verbatim>\<open>try\<close> block of \<^verbatim>\<open>process_document\<close>.\<close>

definition process_document_try ::
  "('vs, 'db) env \<Rightarrow> string \<Rightarrow> string \<Rightarrow> ('vs, 'db) state \<Rightarrow> (exn + bool) \<times> ('vs, 'db) state"
where
  "process_document_try E file_path doc_id s =
     (case pdf_load E (files s) file_path of
        Inl e \<Rightarrow> (Inl e, s)
      | Inr documents \<Rightarrow>
     (case split_documents E 1000 200 documents of
        Inl e \<Rightarrow> (Inl e, s)
      | Inr texts \<Rightarrow>
     (case faiss_from_documents E texts of
        Inl e \<Rightarrow> (Inl e, s)
      | Inr vector_store \<Rightarrow>
     (let s1 = s\<lparr>vector_stores := (vector_stores s)(doc_id \<mapsto> vector_store)\<rparr> in
      case sqlite_connect E ''chatbot.db'' (database s1) of
        Inl e \<Rightarrow> (Inl e, s1)
      | Inr conn \<Rightarrow>
     (let call = (''INSERT INTO documents VALUES (?, ?, ?)'',
                  [SText doc_id, SText (basename file_path), STimestamp (clock s1)]);
          s2 = s1\<lparr>sql_log := sql_log s1 @ [call]\<rparr> in
      case sqlite_execute E (fst call) (snd call) conn of
        Inl e \<Rightarrow> (Inl e, s2)
      | Inr (rows, conn') \<Rightarrow>
     (case sqlite_commit E conn' of
        Inl e \<Rightarrow> (Inl e, s2)
      | Inr db' \<Rightarrow> (Inr True, s2\<lparr>database := db'\<rparr>)))))))"

text \<open>\<^verbatim>\<open>except Exception as e\<close>: print a line and return \<^verbatim>\<open>False\<close>.\<close>

definition process_document ::
  "('vs, 'db) env \<Rightarrow> string \<Rightarrow> string \<Rightarrow> ('vs, 'db) state \<Rightarrow> bool \<times> ('vs, 'db) state"
where
  "process_document E file_path doc_id s =
     (case process_document_try E file_path doc_id s of
        (Inr b, s') \<Rightarrow> (b, s')
      | (Inl e, s') \<Rightarrow>
          (False, s'\<lparr>stdout := stdout s' @ [''Error processing document: '' @ exn_str e]\<rparr>))"

subsection \<open>save_chat\<close>

definition save_chat_try ::
  "('vs, 'db) env \<Rightarrow> string \<Rightarrow> string \<Rightarrow> string \<Rightarrow> ('vs, 'db) state \<Rightarrow>
   (exn + unit) \<times> ('vs, 'db) state"
where
  "save_chat_try E doc_id quest ans s =
     (case sqlite_connect E ''chatbot.db'' (database s) of
        Inl e \<Rightarrow> (Inl e, s)
      | Inr conn \<Rightarrow>
     (let chat_id = uuid4 E (entropy s);
          s1 = s\<lparr>entropy := Suc (entropy s)\<rparr>;
          call = (''INSERT INTO chats VALUES (?, ?, ?, ?, ?)'',
                  [SText chat_id, SText doc_id, SText quest, SText ans,
                   STimestamp (clock s1)]);
          s2 = s1\<lparr>sql_log := sql_log s1 @ [call]\<rparr> in
      case sqlite_execute E (fst call) (snd call) conn of
        Inl e \<Rightarrow> (Inl e, s2)
      | Inr (rows, conn') \<Rightarrow>
     (case sqlite_commit E conn' of
        Inl e \<Rightarrow> (Inl e, s2)
      | Inr db' \<Rightarrow> (Inr (), s2\<lparr>database := db'\<rparr>))))"

text \<open>\<^verbatim>\<open>save_chat\<close> returns nothing; its \<^verbatim>\<open>except Exception\<close> prints a line.\<close>

definition save_chat ::
  "('vs, 'db) env \<Rightarrow> string \<Rightarrow> string \<Rightarrow> string \<Rightarrow> ('vs, 'db) state \<Rightarrow> ('vs, 'db) state"
where
  "save_chat E doc_id quest ans s =
     (case save_chat_try E doc_id quest ans s of
        (Inr _, s') \<Rightarrow> s'
      | (Inl e, s') \<Rightarrow> s'\<lparr>stdout := stdout s' @ [''Error saving chat: '' @ exn_str e]\<rparr>)"

subsection \<open>upload_pdf\<close>

text \<open>
  \<open>background_tasks\<close> tells whether the handler was given a \<^verbatim>\<open>BackgroundTasks\<close> object
  (the framework supplies one; the parameter's default is \<^verbatim>\<open>None\<close>).
\<close>

definition upload_pdf ::
  "('vs, 'db) env \<Rightarrow> UploadFile \<Rightarrow> bool \<Rightarrow> ('vs, 'db) state \<Rightarrow>
   (failure + UploadResponse) \<times> ('vs, 'db) state"
where
  "upload_pdf E file background_tasks s =
     (if content_type file \<noteq> Some ''application/pdf''
      then (Inl (HTTPException 400 ''Only PDF files are allowed''), s)
      else
        let s1 = s\<lparr>entropy := Suc (entropy s)\<rparr> in
        case named_temporary_file E (entropy s) ''.pdf'' of
          Inl e \<Rightarrow> (Inl (Unhandled e), s1)
        | Inr tmp_file_path \<Rightarrow>
            let s2 = s1\<lparr>files := (files s1)(tmp_file_path \<mapsto> content file)\<rparr>;
                doc_id = uuid4 E (entropy s2);
                s3 = s2\<lparr>entropy := Suc (entropy s2)\<rparr>;
                s4 = (if background_tasks
                      then s3\<lparr>background := background s3 @ [(tmp_file_path, doc_id)]\<rparr>
                      else snd (process_document E tmp_file_path doc_id s3))
            in (Inr \<lparr>message = ''PDF is being processed. You can start asking questions shortly.'',
                     document_id = doc_id\<rparr>, s4))"

text \<open>The framework runs the oldest queued call once the response has been sent.\<close>

definition run_background_task :: "('vs, 'db) env \<Rightarrow> ('vs, 'db) state \<Rightarrow> ('vs, 'db) state" where
  "run_background_task E s =
     (case background s of
        [] \<Rightarrow> s
      | (file_path, doc_id) # rest \<Rightarrow>
          snd (process_document E file_path doc_id (s\<lparr>background := rest\<rparr>)))"

subsection \<open>ask_question\<close>

text \<open>The loop over \<^verbatim>\<open>result["source_documents"]\<close>, with the list \<^verbatim>\<open>sources\<close> it appends to.\<close>

fun extract_sources :: "document list \<Rightarrow> string list \<Rightarrow> exn + string list" where
  "extract_sources [] srcs = Inr srcs"
| "extract_sources (doc # docs) srcs =
     (case metadata doc of
        None \<Rightarrow> extract_sources docs srcs
      | Some m \<Rightarrow>
     (case m ''page'' of
        None \<Rightarrow> extract_sources docs srcs
      | Some v \<Rightarrow>
     (case add_one v of
        Inl e \<Rightarrow> Inl e
      | Inr n \<Rightarrow> extract_sources docs (srcs @ [''Page '' @ str_int n]))))"

text \<open>The body of the \<^verbatim>\<open>try\<close> block of \<^verbatim>\<open>ask_question\<close>.\<close>

definition ask_question_try ::
  "('vs, 'db) env \<Rightarrow> QuestionRequest \<Rightarrow> string \<Rightarrow> 'vs \<Rightarrow> ('vs, 'db) state \<Rightarrow>
   (exn + ChatResponse) \<times> ('vs, 'db) state"
where
  "ask_question_try E request doc_id vector_store s =
     (case retrieval_qa E vector_store 3 (question request) of
        Inl e \<Rightarrow> (Inl e, s)
      | Inr res \<Rightarrow>
     (case extract_sources (source_documents res) [] of
        Inl e \<Rightarrow> (Inl e, s)
      | Inr srcs \<Rightarrow>
          (Inr \<lparr>answer = result res, sources = srcs, document_id = doc_id\<rparr>,
           save_chat E doc_id (question request) (result res) s)))"

definition ask_question ::
  "('vs, 'db) env \<Rightarrow> QuestionRequest \<Rightarrow> ('vs, 'db) state \<Rightarrow>
   (failure + ChatResponse) \<times> ('vs, 'db) state"
where
  "ask_question E request s =
     (case QuestionRequest.document_id request of
        None \<Rightarrow> (Inl (HTTPException 400 ''Document not found or still processing''), s)
      | Some doc_id \<Rightarrow>
     (case vector_stores s doc_id of
        None \<Rightarrow> (Inl (HTTPException 400 ''Document not found or still processing''), s)
      | Some vector_store \<Rightarrow>
     (case ask_question_try E request doc_id vector_store s of
        (Inr r, s') \<Rightarrow> (Inr r, s')
      | (Inl e, s') \<Rightarrow>
          (Inl (HTTPException 500 (''Error processing question: '' @ exn_str e)), s'))))"

subsection \<open>get_chats\<close>

text \<open>The loop over \<^verbatim>\<open>c.fetchall()\<close>: one dictionary per row.\<close>

fun chat_rows :: "sqlval list list \<Rightarrow> (string \<times> sqlval) list list \<Rightarrow>
                  exn + (string \<times> sqlval) list list" where
  "chat_rows [] chats = Inr chats"
| "chat_rows (row # rows) chats =
     (case column row 0 of Inl e \<Rightarrow> Inl e | Inr q \<Rightarrow>
     (case column row 1 of Inl e \<Rightarrow> Inl e | Inr a \<Rightarrow>
     (case column row 2 of Inl e \<Rightarrow> Inl e | Inr t \<Rightarrow>
        chat_rows rows (chats @ [[(''question'', q), (''answer'', a), (''created_at'', t)]]))))"

definition get_chats_try ::
  "('vs, 'db) env \<Rightarrow> string \<Rightarrow> ('vs, 'db) state \<Rightarrow>
   (exn + (string \<times> sqlval) list list) \<times> ('vs, 'db) state"
where
  "get_chats_try E doc_id s =
     (case sqlite_connect E ''chatbot.db'' (database s) of
        Inl e \<Rightarrow> (Inl e, s)
      | Inr conn \<Rightarrow>
     (let call = (''SELECT question, answer, created_at FROM chats WHERE document_id = ? ORDER BY created_at'',
                  [SText doc_id]);
          s1 = s\<lparr>sql_log := sql_log s @ [call]\<rparr> in
      case sqlite_execute E (fst call) (snd call) conn of
        Inl e \<Rightarrow> (Inl e, s1)
      | Inr (rows, conn') \<Rightarrow>
     (case chat_rows rows [] of
        Inl e \<Rightarrow> (Inl e, s1)
      | Inr chats \<Rightarrow> (Inr chats, s1))))"

definition get_chats ::
  "('vs, 'db) env \<Rightarrow> string \<Rightarrow> ('vs, 'db) state \<Rightarrow>
   (failure + (string \<times> sqlval) list list) \<times> ('vs, 'db) state"
where
  "get_chats E doc_id s =
     (case get_chats_try E doc_id s of
        (Inr chats, s') \<Rightarrow> (Inr chats, s')
      | (Inl e, s') \<Rightarrow>
          (Inl (HTTPException 500 (''Error retrieving chats: '' @ exn_str e)), s'))"

section \<open>Notions used to state the properties\<close>

text \<open>
  The value a passage's metadata holds under \<^verbatim>\<open>'page'\<close>, if any; whether there is one;
  and the integer pages of a list of passages, in order and with repetitions.
\<close>

definition page_of :: "document \<Rightarrow> pyval option" where
  "page_of doc = (case metadata doc of None \<Rightarrow> None | Some m \<Rightarrow> m ''page'')"

definition has_page :: "document \<Rightarrow> bool" where
  "has_page doc = (page_of doc \<noteq> None)"

fun int_pages :: "document list \<Rightarrow> int list" where
  "int_pages [] = []"
| "int_pages (doc # docs) =
     (case page_of doc of Some (PInt p) \<Rightarrow> p # int_pages docs | _ \<Rightarrow> int_pages docs)"

text \<open>
  The exception, if any, that loading, chunking, or embedding and index construction raise
  for a file: the first three calls of \<^verbatim>\<open>process_document\<close>, in its order.
\<close>

definition ingestion_error ::
  "('vs, 'db) env \<Rightarrow> (string \<rightharpoonup> string) \<Rightarrow> string \<Rightarrow> exn option" where
  "ingestion_error E fs file_path =
     (case pdf_load E fs file_path of
        Inl e \<Rightarrow> Some e
      | Inr documents \<Rightarrow>
     (case split_documents E 1000 200 documents of
        Inl e \<Rightarrow> Some e
      | Inr texts \<Rightarrow>
     (case faiss_from_documents E texts of
        Inl e \<Rightarrow> Some e
      | Inr _ \<Rightarrow> None)))"

text \<open>The one failure \<^verbatim>\<open>ask_question\<close> raises outside its \<^verbatim>\<open>try\<close> block.\<close>

definition not_found_or_processing :: failure where
  "not_found_or_processing = HTTPException 400 ''Document not found or still processing''"

subsection \<open>Concrete environments and states\<close>

text \<open>
  An environment in which every call succeeds: a vector store is the list of its passages,
  retrieval takes the first \<open>k\<close> of them, the database is the list of the statements
  committed to it. The others differ from it in one call that raises.
\<close>

definition demo_env :: "(document list, sql_call list) env" where
  "demo_env =
     \<lparr>pdf_load = (\<lambda>fs path. case fs path of
                     None \<Rightarrow> Inl (Exn ''FileNotFoundError'' path)
                   | Some text \<Rightarrow> Inr [\<lparr>page_content = text, metadata = Some [''page'' \<mapsto> PInt 0]\<rparr>]),
      split_documents = (\<lambda>c ov docs. Inr docs),
      faiss_from_documents = Inr,
      retrieval_qa = (\<lambda>vs k q. Inr \<lparr>result = ''yes'', source_documents = take k vs\<rparr>),
      sqlite_connect = (\<lambda>name db. Inr db),
      sqlite_execute = (\<lambda>sql params conn. Inr ([], conn @ [(sql, params)])),
      sqlite_commit = Inr,
      uuid4 = (\<lambda>n. ''doc-'' @ str_nat n),
      named_temporary_file = (\<lambda>n suffix. Inr (''/tmp/tmp'' @ str_nat n @ suffix))\<rparr>"

definition broken_loader_env :: "(document list, sql_call list) env" where
  "broken_loader_env =
     demo_env\<lparr>pdf_load := (\<lambda>fs path. Inl (Exn ''PdfReadError'' ''EOF marker not found''))\<rparr>"

definition db_down_env :: "(document list, sql_call list) env" where
  "db_down_env =
     demo_env\<lparr>sqlite_connect :=
                (\<lambda>name db. Inl (Exn ''OperationalError'' ''unable to open database file''))\<rparr>"



text \<open>The state of a fresh process, and states in which a document \<^verbatim>\<open>d\<close> is indexed.\<close>

definition initial_state :: "(document list, sql_call list) state" where
  "initial_state =
     \<lparr>vector_stores = Map.empty, database = [], files = Map.empty, stdout = [],
      background = [], sql_log = [], entropy = 0, clock = 0\<rparr>"

definition a_pdf :: UploadFile where
  "a_pdf = \<lparr>content_type = Some ''application/pdf'', content = ''%PDF-1.4 hello''\<rparr>"

definition a_text_file :: UploadFile where
  "a_text_file = \<lparr>content_type = Some ''text/plain'', content = ''hello''\<rparr>"

definition same_page_store :: "document list" where
  "same_page_store =
     [\<lparr>page_content = ''first half of page one'', metadata = Some [''page'' \<mapsto> PInt 0]\<rparr>,
      \<lparr>page_content = ''second half of page one'', metadata = Some [''page'' \<mapsto> PInt 0]\<rparr>]"

definition mixed_store :: "document list" where
  "mixed_store =
     [\<lparr>page_content = ''intro'', metadata = Some [''page'' \<mapsto> PInt 4]\<rparr>,
      \<lparr>page_content = ''unnumbered'', metadata = Some [''source'' \<mapsto> PStr ''a.pdf'']\<rparr>,
      \<lparr>page_content = ''appendix'', metadata = Some [''page'' \<mapsto> PInt 6]\<rparr>]"

definition ready_state :: "document list \<Rightarrow> (document list, sql_call list) state" where
  "ready_state store = initial_state\<lparr>vector_stores := [''d'' \<mapsto> store]\<rparr>"

definition hostile_id :: string where
  "hostile_id = ''1 OR 1=1; DROP TABLE chats; --''"


text \<open>
  An environment whose database is the list of the statements committed to it and whose
  \<^verbatim>\<open>execute\<close> answers the statement of the chat history with the rows of the chats
  inserted for the bound identifier, and raises on any text it does not know. The second
  one raises on every call but the statement of the chat history bound to \<open>hostile_id\<close>.
\<close>

fun chats_of :: "sql_call list \<Rightarrow> sqlval \<Rightarrow> sqlval list list" where
  "chats_of [] d = []"
| "chats_of ((sql, params) # calls) d =
     (case params of
        [chat_id, doc, q, a, t] \<Rightarrow>
          (if sql = ''INSERT INTO chats VALUES (?, ?, ?, ?, ?)'' \<and> doc = d
           then [q, a, t] # chats_of calls d else chats_of calls d)
      | _ \<Rightarrow> chats_of calls d)"

definition table_env :: "(document list, sql_call list) env" where
  "table_env =
     demo_env\<lparr>sqlite_execute :=
       (\<lambda>sql params conn.
          if sql = ''SELECT question, answer, created_at FROM chats WHERE document_id = ? ORDER BY created_at''
          then (case params of
                  [d] \<Rightarrow> Inr (chats_of conn d, conn)
                | _ \<Rightarrow> Inl (Exn ''ProgrammingError'' ''Incorrect number of bindings supplied''))
          else if sql = ''INSERT INTO chats VALUES (?, ?, ?, ?, ?)''
          then Inr ([], conn @ [(sql, params)])
          else Inl (Exn ''OperationalError'' ''syntax error''))\<rparr>"

definition select_only_env :: "(document list, sql_call list) env" where
  "select_only_env =
     table_env\<lparr>sqlite_execute :=
       (\<lambda>sql params conn.
          if sql = ''SELECT question, answer, created_at FROM chats WHERE document_id = ? ORDER BY created_at''
             \<and> params = [SText hostile_id]
          then sqlite_execute table_env sql params conn
          else Inl (Exn ''DatabaseError'' ''not authorized''))\<rparr>"

definition chatty_state :: "(document list, sql_call list) state" where
  "chatty_state =
     initial_state\<lparr>database :=
       [(''INSERT INTO chats VALUES (?, ?, ?, ?, ?)'',
         [SText ''c1'', SText ''d'', SText ''who?'', SText ''me'', STimestamp 1]),
        (''INSERT INTO chats VALUES (?, ?, ?, ?, ?)'',
         [SText ''c2'', SText ''e'', SText ''why?'', SText ''so'', STimestamp 2])]\<rparr>"

section \<open>The citation loop\<close>

lemma extract_sources_Cons:
  "extract_sources (doc # docs) srcs =
     (case page_of doc of
        None \<Rightarrow> extract_sources docs srcs
      | Some v \<Rightarrow>
          (case add_one v of
             Inl e \<Rightarrow> Inl e
           | Inr n \<Rightarrow> extract_sources docs (srcs @ [''Page '' @ str_int n])))"
  by (simp add: page_of_def split: option.splits)

lemma extract_sources_skip:
  "page_of doc = None \<Longrightarrow> extract_sources (doc # docs) srcs = extract_sources docs srcs"
  by (simp only: extract_sources_Cons option.case)

lemma extract_sources_filter:
  "extract_sources (filter has_page docs) srcs = extract_sources docs srcs"
proof (induction docs arbitrary: srcs)
  case Nil
  show ?case by simp
next
  case (Cons doc docs)
  show ?case
  proof (cases "page_of doc")
    case None
    then have "\<not> has_page doc" by (simp add: has_page_def)
    with None Cons.IH show ?thesis
      by (simp add: extract_sources_skip del: extract_sources.simps)
  next
    case (Some v)
    then have "has_page doc" by (simp add: has_page_def)
    with Cons.IH Some show ?thesis
      by (simp add: extract_sources_Cons del: extract_sources.simps split: sum.splits)
  qed
qed

lemma extract_sources_Inr:
  "extract_sources docs srcs = Inr r \<Longrightarrow>
   r = srcs @ map (\<lambda>p. ''Page '' @ str_int (p + 1)) (int_pages docs) \<and>
   length (int_pages docs) = length (filter has_page docs)"
proof (induction docs arbitrary: srcs)
  case Nil
  then show ?case by simp
next
  case (Cons doc docs)
  show ?case
  proof (cases "page_of doc")
    case None
    then show ?thesis
      using Cons.IH [of srcs] Cons.prems
      by (simp add: extract_sources_skip has_page_def del: extract_sources.simps)
  next
    case (Some v)
    show ?thesis
    proof (cases v)
      case (PInt p)
      have "extract_sources (doc # docs) srcs =
            extract_sources docs (srcs @ [''Page '' @ str_int (p + 1)])"
        using Some PInt by (simp add: extract_sources_Cons add_one_def del: extract_sources.simps)
      with Cons.prems Cons.IH [of "srcs @ [''Page '' @ str_int (p + 1)]"] Some PInt
      show ?thesis by (simp add: has_page_def del: extract_sources.simps)
    next
      case (PStr x)
      have "isl (extract_sources (doc # docs) srcs)"
        using Some PStr by (simp add: extract_sources_Cons add_one_def del: extract_sources.simps)
      with Cons.prems show ?thesis by simp
    qed
  qed
qed

lemma int_pages_set:
  "p \<in> set (int_pages docs) \<Longrightarrow> \<exists>doc \<in> set docs. page_of doc = Some (PInt p)"
proof (induction docs)
  case Nil
  then show ?case by simp
next
  case (Cons doc docs)
  then show ?case by (auto split: option.splits pyval.splits)
qed

section \<open>The handlers, case by case\<close>

lemma ask_question_unregistered:
  "vector_stores s d = None \<Longrightarrow>
   ask_question E \<lparr>question = q, document_id = Some d\<rparr> s = (Inl not_found_or_processing, s)"
  by (simp add: ask_question_def not_found_or_processing_def)

lemma process_document_ingestion_error:
  "ingestion_error E (files s) file_path = Some e \<Longrightarrow>
   process_document E file_path d s =
     (False, s\<lparr>stdout := stdout s @ [''Error processing document: '' @ exn_str e]\<rparr>)"
  by (auto simp: ingestion_error_def process_document_def process_document_try_def
           split: sum.splits)

lemma upload_pdf_queued_vector_stores:
  "vector_stores (snd (upload_pdf E file True s)) = vector_stores s"
  by (simp add: upload_pdf_def Let_def split: sum.splits)

lemma ask_question_registered:
  assumes "QuestionRequest.document_id request = Some d"
    and "vector_stores s d = Some vs"
  shows "fst (ask_question E request s) =
     (case retrieval_qa E vs 3 (question request) of
        Inl e \<Rightarrow> Inl (HTTPException 500 (''Error processing question: '' @ exn_str e))
      | Inr res \<Rightarrow>
     (case extract_sources (source_documents res) [] of
        Inl e \<Rightarrow> Inl (HTTPException 500 (''Error processing question: '' @ exn_str e))
      | Inr srcs \<Rightarrow> Inr \<lparr>answer = result res, sources = srcs, document_id = d\<rparr>))"
  using assms by (simp add: ask_question_def ask_question_try_def split: sum.splits)

lemma save_chat_failure:
  assumes "fst (save_chat_try E d q a s) = Inl e"
  shows "stdout (save_chat E d q a s) = stdout s @ [''Error saving chat: '' @ exn_str e] \<and>
         database (save_chat E d q a s) = database s \<and>
         vector_stores (save_chat E d q a s) = vector_stores s"
  using assms
  by (auto simp: save_chat_def save_chat_try_def Let_def split: sum.splits prod.splits)

lemma get_chats_connected:
  assumes "sqlite_connect E ''chatbot.db'' (database s) = Inr conn"
  shows "fst (get_chats E d s) =
     (case sqlite_execute E
             ''SELECT question, answer, created_at FROM chats WHERE document_id = ? ORDER BY created_at''
             [SText d] conn of
        Inl e \<Rightarrow> Inl (HTTPException 500 (''Error retrieving chats: '' @ exn_str e))
      | Inr (rows, conn') \<Rightarrow>
          (case chat_rows rows [] of
             Inl e \<Rightarrow> Inl (HTTPException 500 (''Error retrieving chats: '' @ exn_str e))
           | Inr chats \<Rightarrow> Inr chats))"
  using assms
  by (simp add: get_chats_def get_chats_try_def Let_def split: sum.splits prod.splits)

lemma get_chats_only_call:
  assumes "\<forall>c. execute
             ''SELECT question, answer, created_at FROM chats WHERE document_id = ? ORDER BY created_at''
             [SText d] c =
           sqlite_execute E
             ''SELECT question, answer, created_at FROM chats WHERE document_id = ? ORDER BY created_at''
             [SText d] c"
  shows "get_chats (E\<lparr>sqlite_execute := execute\<rparr>) d s = get_chats E d s"
  using assms
  by (simp add: get_chats_def get_chats_try_def Let_def split: sum.splits prod.splits)

section \<open>Properties\<close>

subsection \<open>C1: unknown and unfinished documents\<close>

text \<open>
  C1 asks that a question about an identifier that was never uploaded fail differently from
  a question about a document whose ingestion is pending or has failed. It does not: after
  an upload that returned \<^verbatim>\<open>doc-1\<close>, a question about \<^verbatim>\<open>doc-1\<close> gets the same
  response while the ingestion is queued, after the ingestion has failed, and in a process
  that never saw the upload.
\<close>

theorem ask_question_pending_failed_like_unknown:
  "fst (upload_pdf broken_loader_env a_pdf True initial_state) =
     Inr \<lparr>message = ''PDF is being processed. You can start asking questions shortly.'',
          document_id = ''doc-1''\<rparr> \<and>
   fst (ask_question broken_loader_env \<lparr>question = ''q'', document_id = Some ''doc-1''\<rparr>
          (snd (upload_pdf broken_loader_env a_pdf True initial_state))) =
   fst (ask_question broken_loader_env \<lparr>question = ''q'', document_id = Some ''doc-1''\<rparr>
          initial_state) \<and>
   fst (ask_question broken_loader_env \<lparr>question = ''q'', document_id = Some ''doc-1''\<rparr>
          (run_background_task broken_loader_env
             (snd (upload_pdf broken_loader_env a_pdf True initial_state)))) =
   fst (ask_question broken_loader_env \<lparr>question = ''q'', document_id = Some ''doc-1''\<rparr>
          initial_state)"
  by (simp add: upload_pdf_def ask_question_def run_background_task_def process_document_def
        process_document_try_def broken_loader_env_def demo_env_def a_pdf_def
        initial_state_def str_nat.simps Let_def)

text \<open>
  C1, as the code has it: a question about an identifier that is not a key of
  \<^verbatim>\<open>vector_stores\<close> fails with HTTP 400 and the detail
  \<^verbatim>\<open>Document not found or still processing\<close>, and it is the same failure once an upload
  has been queued for background processing and once an ingestion of that identifier has
  failed in loading, chunking, embedding or index construction.
\<close>

theorem ask_question_single_error:
  assumes "vector_stores s d = None"
  shows "fst (ask_question E \<lparr>question = q, document_id = Some d\<rparr> s) =
           Inl not_found_or_processing \<and>
         fst (ask_question E \<lparr>question = q, document_id = Some d\<rparr>
               (snd (upload_pdf E file True s))) = Inl not_found_or_processing \<and>
         (ingestion_error E (files s) file_path \<noteq> None \<longrightarrow>
          fst (ask_question E \<lparr>question = q, document_id = Some d\<rparr>
                (snd (process_document E file_path d s))) = Inl not_found_or_processing)"
proof (intro conjI impI)
  show "fst (ask_question E \<lparr>question = q, document_id = Some d\<rparr> s) =
           Inl not_found_or_processing"
    using assms by (simp add: ask_question_unregistered)
  have "vector_stores (snd (upload_pdf E file True s)) d = None"
    using assms by (simp add: upload_pdf_queued_vector_stores)
  then show "fst (ask_question E \<lparr>question = q, document_id = Some d\<rparr>
               (snd (upload_pdf E file True s))) = Inl not_found_or_processing"
    by (simp add: ask_question_unregistered)
  assume "ingestion_error E (files s) file_path \<noteq> None"
  then obtain e where "ingestion_error E (files s) file_path = Some e" by auto
  then have "vector_stores (snd (process_document E file_path d s)) d = None"
    using assms by (simp add: process_document_ingestion_error)
  then show "fst (ask_question E \<lparr>question = q, document_id = Some d\<rparr>
               (snd (process_document E file_path d s))) = Inl not_found_or_processing"
    by (simp add: ask_question_unregistered)
qed

theorem ask_question_single_error_witness:
  "vector_stores initial_state ''doc-1'' = None \<and>
   ingestion_error broken_loader_env (files initial_state) ''/tmp/tmp0.pdf'' \<noteq> None \<and>
   fst (ask_question broken_loader_env \<lparr>question = ''q'', document_id = Some ''doc-1''\<rparr>
         initial_state) = Inl (HTTPException 400 ''Document not found or still processing'') \<and>
   fst (ask_question broken_loader_env \<lparr>question = ''q'', document_id = Some ''doc-1''\<rparr>
         (snd (upload_pdf broken_loader_env a_pdf True initial_state))) =
     Inl (HTTPException 400 ''Document not found or still processing'') \<and>
   fst (ask_question broken_loader_env \<lparr>question = ''q'', document_id = Some ''doc-1''\<rparr>
         (snd (process_document broken_loader_env ''/tmp/tmp0.pdf'' ''doc-1'' initial_state))) =
     Inl (HTTPException 400 ''Document not found or still processing'')"
proof -
  have h: "vector_stores initial_state ''doc-1'' = None"
    by (simp add: initial_state_def)
  have i: "ingestion_error broken_loader_env (files initial_state) ''/tmp/tmp0.pdf'' \<noteq> None"
    by (simp add: ingestion_error_def broken_loader_env_def)
  show ?thesis
    using h i
      ask_question_single_error [OF h, of broken_loader_env "''q''" a_pdf "''/tmp/tmp0.pdf''"]
    by (simp add: not_found_or_processing_def)
qed

subsection \<open>C2: the cited pages\<close>

text \<open>
  C2 asks that no page appear twice among the citations of an answer. Two retrieved
  passages of the same page are cited twice.
\<close>

theorem ask_question_repeats_page:
  "fst (ask_question demo_env \<lparr>question = ''q'', document_id = Some ''d''\<rparr>
          (ready_state same_page_store)) =
     Inr \<lparr>answer = ''yes'', sources = [''Page 1'', ''Page 1''], document_id = ''d''\<rparr> \<and>
   \<not> distinct (sources (projr (fst (ask_question demo_env
          \<lparr>question = ''q'', document_id = Some ''d''\<rparr> (ready_state same_page_store)))))"
  by (simp add: ask_question_def ask_question_try_def demo_env_def ready_state_def
        initial_state_def same_page_store_def add_one_def str_int_def str_nat.simps)

text \<open>
  C2, as the code has it: the citations of a successful answer are the labels
  \<^verbatim>\<open>Page p+1\<close> of the retrieved passages that have a page \<open>p\<close>, one label for each such
  passage, in retrieval order; every citation is the label of the page of a retrieved
  passage.
\<close>

theorem ask_question_sources:
  assumes "QuestionRequest.document_id request = Some d"
    and "vector_stores s d = Some vs"
    and "retrieval_qa E vs 3 (question request) = Inr res"
    and "fst (ask_question E request s) = Inr r"
  shows "sources r = map (\<lambda>p. ''Page '' @ str_int (p + 1)) (int_pages (source_documents res)) \<and>
         (\<forall>x \<in> set (sources r). \<exists>doc \<in> set (source_documents res). \<exists>p.
             page_of doc = Some (PInt p) \<and> x = ''Page '' @ str_int (p + 1))"
proof -
  from assms ask_question_registered [OF assms(1,2), of E]
  have "extract_sources (source_documents res) [] = Inr (sources r)"
    by (auto split: sum.splits)
  then have eq: "sources r =
      map (\<lambda>p. ''Page '' @ str_int (p + 1)) (int_pages (source_documents res))"
    using extract_sources_Inr [of "source_documents res" "[]" "sources r"] by simp
  show ?thesis
  proof (intro conjI ballI)
    show "sources r = map (\<lambda>p. ''Page '' @ str_int (p + 1)) (int_pages (source_documents res))"
      by (rule eq)
  next
    fix x assume "x \<in> set (sources r)"
    then obtain p where p: "p \<in> set (int_pages (source_documents res))"
      and x: "x = ''Page '' @ str_int (p + 1)"
      unfolding eq by auto
    from int_pages_set [OF p] x
    show "\<exists>doc \<in> set (source_documents res). \<exists>p.
             page_of doc = Some (PInt p) \<and> x = ''Page '' @ str_int (p + 1)"
      by blast
  qed
qed

theorem ask_question_sources_witness:
  "fst (ask_question demo_env \<lparr>question = ''q'', document_id = Some ''d''\<rparr>
          (ready_state mixed_store)) =
     Inr \<lparr>answer = ''yes'', sources = [''Page 5'', ''Page 7''], document_id = ''d''\<rparr> \<and>
   [''Page 5'', ''Page 7''] =
     map (\<lambda>p. ''Page '' @ str_int (p + 1)) (int_pages (take 3 mixed_store))"
proof -
  let ?request = "\<lparr>question = ''q'', document_id = Some ''d''\<rparr>"
  let ?res = "\<lparr>result = ''yes'', source_documents = take 3 mixed_store\<rparr>"
  let ?r = "\<lparr>answer = ''yes'', sources = [''Page 5'', ''Page 7''], document_id = ''d''\<rparr>"
  have a: "QuestionRequest.document_id ?request = Some ''d''" by simp
  have b: "vector_stores (ready_state mixed_store) ''d'' = Some mixed_store"
    by (simp add: ready_state_def)
  have c: "retrieval_qa demo_env mixed_store 3 (question ?request) = Inr ?res"
    by (simp add: demo_env_def)
  have d: "fst (ask_question demo_env ?request (ready_state mixed_store)) = Inr ?r"
    by (simp add: ask_question_def ask_question_try_def demo_env_def ready_state_def
          initial_state_def mixed_store_def add_one_def str_int_def str_nat.simps)
  from ask_question_sources [OF a b c d] d show ?thesis by simp
qed

subsection \<open>C3: failures of a question\<close>




subsection \<open>C4: failures of an ingestion\<close>

text \<open>
  C4 asks that a failed ingestion be recorded as the state FAILED of its document. Nothing
  is recorded about the document: the state after a failed ingestion is the state before
  it with one printed line more, and it is the same state whichever document was ingested.
\<close>

theorem process_document_records_nothing:
  "process_document broken_loader_env ''/tmp/tmp0.pdf'' ''doc-A'' initial_state =
     (False, initial_state\<lparr>stdout := [''Error processing document: EOF marker not found'']\<rparr>) \<and>
   process_document broken_loader_env ''/tmp/tmp0.pdf'' ''doc-B'' initial_state =
   process_document broken_loader_env ''/tmp/tmp0.pdf'' ''doc-A'' initial_state"
  by (simp add: process_document_def process_document_try_def broken_loader_env_def
        demo_env_def initial_state_def)

text \<open>
  C4, as the code has it: when loading, chunking, embedding or index construction raises,
  \<^verbatim>\<open>process_document\<close> catches the exception, prints
  \<^verbatim>\<open>Error processing document: \<close> followed by its text, and returns \<^verbatim>\<open>False\<close>;
  \<^verbatim>\<open>vector_stores\<close> and the database are as they were, and the outcome does not depend on
  the document identifier.
\<close>

theorem process_document_captures_failure:
  assumes "ingestion_error E (files s) file_path = Some e"
  shows "process_document E file_path d s =
           (False, s\<lparr>stdout := stdout s @ [''Error processing document: '' @ exn_str e]\<rparr>) \<and>
         vector_stores (snd (process_document E file_path d s)) = vector_stores s \<and>
         database (snd (process_document E file_path d s)) = database s \<and>
         process_document E file_path d' s = process_document E file_path d s"
  using assms by (simp add: process_document_ingestion_error)

theorem process_document_captures_failure_witness:
  "ingestion_error broken_loader_env (files initial_state) ''/tmp/tmp0.pdf'' =
     Some (Exn ''PdfReadError'' ''EOF marker not found'') \<and>
   process_document broken_loader_env ''/tmp/tmp0.pdf'' ''doc-A'' initial_state =
     (False, initial_state\<lparr>stdout := stdout initial_state @
         [''Error processing document: '' @ ''EOF marker not found'']\<rparr>)"
proof -
  have h: "ingestion_error broken_loader_env (files initial_state) ''/tmp/tmp0.pdf'' =
     Some (Exn ''PdfReadError'' ''EOF marker not found'')"
    by (simp add: ingestion_error_def broken_loader_env_def)
  from process_document_captures_failure [OF h, of "''doc-A''"] h show ?thesis by simp
qed

subsection \<open>C7: passages without a page\<close>

text \<open>
  C7: a retrieved passage without page metadata raises no error and is left out of the
  citations. A successful answer is the one the passages that have a page would give alone;
  it has as many citations as there are such passages, which is fewer than the passages
  retrieved as soon as one of them has no page.
\<close>

theorem ask_question_skips_unpaged:
  assumes "QuestionRequest.document_id request = Some d"
    and "vector_stores s d = Some vs"
    and "retrieval_qa E vs 3 (question request) = Inr res"
    and "extract_sources (filter has_page (source_documents res)) [] = Inr srcs"
  shows "fst (ask_question E request s) =
           Inr \<lparr>answer = result res, sources = srcs, document_id = d\<rparr> \<and>
         length srcs = length (filter has_page (source_documents res)) \<and>
         length srcs \<le> length (source_documents res) \<and>
         ((\<exists>doc \<in> set (source_documents res). \<not> has_page doc) \<longrightarrow>
            length srcs < length (source_documents res))"
proof -
  have ex: "extract_sources (source_documents res) [] = Inr srcs"
    using assms(4) by (simp only: extract_sources_filter)
  have len: "length srcs = length (filter has_page (source_documents res))"
    using extract_sources_Inr [OF ex] by simp
  have "fst (ask_question E request s) =
           Inr \<lparr>answer = result res, sources = srcs, document_id = d\<rparr>"
    using ask_question_registered [OF assms(1,2), of E] assms(3) ex by simp
  moreover have "length srcs \<le> length (source_documents res)"
    unfolding len by (rule length_filter_le)
  moreover have "(\<exists>doc \<in> set (source_documents res). \<not> has_page doc) \<longrightarrow>
            length srcs < length (source_documents res)"
    unfolding len by (auto intro: length_filter_less)
  ultimately show ?thesis using len by simp
qed

theorem ask_question_skips_unpaged_witness:
  "fst (ask_question demo_env \<lparr>question = ''q'', document_id = Some ''d''\<rparr>
          (ready_state mixed_store)) =
     Inr \<lparr>answer = ''yes'', sources = [''Page 5'', ''Page 7''], document_id = ''d''\<rparr> \<and>
   length [''Page 5'', ''Page 7''] < length (take 3 mixed_store)"
proof -
  let ?request = "\<lparr>question = ''q'', document_id = Some ''d''\<rparr>"
  let ?res = "\<lparr>result = ''yes'', source_documents = take 3 mixed_store\<rparr>"
  have a: "QuestionRequest.document_id ?request = Some ''d''" by simp
  have b: "vector_stores (ready_state mixed_store) ''d'' = Some mixed_store"
    by (simp add: ready_state_def)
  have c: "retrieval_qa demo_env mixed_store 3 (question ?request) = Inr ?res"
    by (simp add: demo_env_def)
  have d: "extract_sources (filter has_page (source_documents ?res)) [] =
             Inr [''Page 5'', ''Page 7'']"
    by (simp add: mixed_store_def has_page_def page_of_def add_one_def str_int_def
          str_nat.simps)
  have e: "\<exists>doc \<in> set (source_documents ?res). \<not> has_page doc"
    by (simp add: mixed_store_def has_page_def page_of_def)
  from ask_question_skips_unpaged [OF a b c d] e show ?thesis by simp
qed

subsection \<open>C8: the statement of the chat history\<close>

text \<open>
  C8: once connected, the result of \<^verbatim>\<open>get_chats\<close> is what \<^verbatim>\<open>execute\<close> gives on one
  call, whose text is a constant with one placeholder and whose only bound parameter is the
  document identifier; no other call of \<^verbatim>\<open>execute\<close> has any influence, so the result
  is the same in an environment that differs on every other statement text or parameter.
  The calls logged are that one call, and two runs from the same state with different
  identifiers execute the same statement texts.
\<close>

theorem get_chats_statement_text_fixed:
  "(sqlite_connect E ''chatbot.db'' (database s) = Inr conn \<longrightarrow>
      fst (get_chats E d s) =
        (case sqlite_execute E
                ''SELECT question, answer, created_at FROM chats WHERE document_id = ? ORDER BY created_at''
                [SText d] conn of
           Inl e \<Rightarrow> Inl (HTTPException 500 (''Error retrieving chats: '' @ exn_str e))
         | Inr (rows, conn') \<Rightarrow>
             (case chat_rows rows [] of
                Inl e \<Rightarrow> Inl (HTTPException 500 (''Error retrieving chats: '' @ exn_str e))
              | Inr chats \<Rightarrow> Inr chats))) \<and>
   ((\<forall>c. execute
            ''SELECT question, answer, created_at FROM chats WHERE document_id = ? ORDER BY created_at''
            [SText d] c =
          sqlite_execute E
            ''SELECT question, answer, created_at FROM chats WHERE document_id = ? ORDER BY created_at''
            [SText d] c) \<longrightarrow>
      get_chats (E\<lparr>sqlite_execute := execute\<rparr>) d s = get_chats E d s) \<and>
   sql_log (snd (get_chats E d s)) =
     sql_log s @
     (case sqlite_connect E ''chatbot.db'' (database s) of
        Inl e \<Rightarrow> []
      | Inr conn \<Rightarrow>
          [(''SELECT question, answer, created_at FROM chats WHERE document_id = ? ORDER BY created_at'',
            [SText d])]) \<and>
   map fst (sql_log (snd (get_chats E d s))) = map fst (sql_log (snd (get_chats E d' s)))"
proof (intro conjI impI)
  assume "sqlite_connect E ''chatbot.db'' (database s) = Inr conn"
  then show "fst (get_chats E d s) =
        (case sqlite_execute E
                ''SELECT question, answer, created_at FROM chats WHERE document_id = ? ORDER BY created_at''
                [SText d] conn of
           Inl e \<Rightarrow> Inl (HTTPException 500 (''Error retrieving chats: '' @ exn_str e))
         | Inr (rows, conn') \<Rightarrow>
             (case chat_rows rows [] of
                Inl e \<Rightarrow> Inl (HTTPException 500 (''Error retrieving chats: '' @ exn_str e))
              | Inr chats \<Rightarrow> Inr chats))"
    by (rule get_chats_connected)
next
  assume "\<forall>c. execute
            ''SELECT question, answer, created_at FROM chats WHERE document_id = ? ORDER BY created_at''
            [SText d] c =
          sqlite_execute E
            ''SELECT question, answer, created_at FROM chats WHERE document_id = ? ORDER BY created_at''
            [SText d] c"
  then show "get_chats (E\<lparr>sqlite_execute := execute\<rparr>) d s = get_chats E d s"
    by (rule get_chats_only_call)
next
  show "sql_log (snd (get_chats E d s)) =
     sql_log s @
     (case sqlite_connect E ''chatbot.db'' (database s) of
        Inl e \<Rightarrow> []
      | Inr conn \<Rightarrow>
          [(''SELECT question, answer, created_at FROM chats WHERE document_id = ? ORDER BY created_at'',
            [SText d])])"
    by (auto simp: get_chats_def get_chats_try_def Let_def split: sum.splits prod.splits)
next
  show "map fst (sql_log (snd (get_chats E d s))) = map fst (sql_log (snd (get_chats E d' s)))"
    by (auto simp: get_chats_def get_chats_try_def Let_def split: sum.splits prod.splits)
qed

theorem get_chats_statement_text_fixed_witness:
  "sqlite_connect table_env ''chatbot.db'' (database chatty_state) = Inr (database chatty_state) \<and>
   fst (get_chats table_env hostile_id chatty_state) = Inr [] \<and>
   get_chats select_only_env hostile_id chatty_state =
     get_chats table_env hostile_id chatty_state \<and>
   sql_log (snd (get_chats table_env hostile_id chatty_state)) =
     [(''SELECT question, answer, created_at FROM chats WHERE document_id = ? ORDER BY created_at'',
       [SText hostile_id])] \<and>
   fst (get_chats table_env ''d'' chatty_state) =
     Inr [[(''question'', SText ''who?''), (''answer'', SText ''me''),
           (''created_at'', STimestamp 1)]]"
proof -
  let ?select = "''SELECT question, answer, created_at FROM chats WHERE document_id = ? ORDER BY created_at''"
  have a: "sqlite_connect table_env ''chatbot.db'' (database chatty_state) =
             Inr (database chatty_state)"
    by (simp add: table_env_def demo_env_def)
  have b: "\<forall>c. sqlite_execute select_only_env ?select [SText hostile_id] c =
               sqlite_execute table_env ?select [SText hostile_id] c"
    by (simp add: select_only_env_def)
  have c: "table_env\<lparr>sqlite_execute := sqlite_execute select_only_env\<rparr> = select_only_env"
    by (simp add: select_only_env_def)
  have d: "sqlite_execute table_env ?select [SText hostile_id] (database chatty_state) =
             Inr ([], database chatty_state)"
    by (simp add: table_env_def chatty_state_def initial_state_def hostile_id_def)
  have e: "sqlite_execute table_env ?select [SText ''d''] (database chatty_state) =
             Inr ([[SText ''who?'', SText ''me'', STimestamp 1]], database chatty_state)"
    by (simp add: table_env_def chatty_state_def initial_state_def)
  have f: "chat_rows [[SText ''who?'', SText ''me'', STimestamp 1]] [] =
             Inr [[(''question'', SText ''who?''), (''answer'', SText ''me''),
                   (''created_at'', STimestamp 1)]]"
    by (simp add: column_def)
  note t1 = get_chats_statement_text_fixed
         [where E = table_env and s = chatty_state and conn = "database chatty_state"
            and d = hostile_id and execute = "sqlite_execute select_only_env"
            and d' = hostile_id]
  note t2 = get_chats_statement_text_fixed
         [where E = table_env and s = chatty_state and conn = "database chatty_state"
            and d = "''d''"]
  have 1: "fst (get_chats table_env hostile_id chatty_state) = Inr []"
    using mp [OF t1 [THEN conjunct1] a] d by simp
  have 2: "get_chats select_only_env hostile_id chatty_state =
             get_chats table_env hostile_id chatty_state"
    using mp [OF t1 [THEN conjunct2, THEN conjunct1] b] c by simp
  have 3: "sql_log (snd (get_chats table_env hostile_id chatty_state)) =
     [(?select, [SText hostile_id])]"
    using t1 [THEN conjunct2, THEN conjunct2, THEN conjunct1] a
    by (simp add: chatty_state_def initial_state_def)
  have 4: "fst (get_chats table_env ''d'' chatty_state) =
     Inr [[(''question'', SText ''who?''), (''answer'', SText ''me''),
           (''created_at'', STimestamp 1)]]"
    using mp [OF t2 [THEN conjunct1] a] e f by simp
  from a 1 2 3 4 show ?thesis by (intro conjI)
qed

subsection \<open>C9: uploads that are not PDF files\<close>

text \<open>
  C9: an upload whose content type is not \<^verbatim>\<open>application/pdf\<close> (or is absent) fails with
  HTTP 400 and leaves the whole state as it was: no file is written, no identifier is
  drawn, nothing is queued or processed.
\<close>

theorem upload_pdf_rejects_non_pdf:
  assumes "content_type file \<noteq> Some ''application/pdf''"
  shows "upload_pdf E file background_tasks s =
           (Inl (HTTPException 400 ''Only PDF files are allowed''), s)"
  using assms by (simp add: upload_pdf_def)

theorem upload_pdf_rejects_non_pdf_witness:
  "content_type a_text_file \<noteq> Some ''application/pdf'' \<and>
   upload_pdf demo_env a_text_file True initial_state =
     (Inl (HTTPException 400 ''Only PDF files are allowed''), initial_state)"
proof -
  have h: "content_type a_text_file \<noteq> Some ''application/pdf''"
    by (simp add: a_text_file_def)
  from upload_pdf_rejects_non_pdf [OF h] h show ?thesis by simp
qed

subsection \<open>C10: answers survive a failure to save the chat\<close>

text \<open>
  C10: when the retrieval chain and the citation loop succeed, the question is answered
  with the generated text and the citations, whatever \<^verbatim>\<open>sqlite3.connect\<close>,
  \<^verbatim>\<open>execute\<close> and \<^verbatim>\<open>commit\<close> do inside \<^verbatim>\<open>save_chat\<close>; an exception
  they raise ends as the printed line \<^verbatim>\<open>Error saving chat: \<close> with its text.
\<close>

theorem ask_question_answers_whatever_sqlite_does:
  assumes "QuestionRequest.document_id request = Some d"
    and "vector_stores s d = Some vs"
    and "retrieval_qa E vs 3 (question request) = Inr res"
    and "extract_sources (source_documents res) [] = Inr srcs"
  shows "fst (ask_question
                (E\<lparr>sqlite_connect := connect, sqlite_execute := execute, sqlite_commit := commit\<rparr>)
                request s) =
           Inr \<lparr>answer = result res, sources = srcs, document_id = d\<rparr> \<and>
         (\<forall>e. fst (save_chat_try
                (E\<lparr>sqlite_connect := connect, sqlite_execute := execute, sqlite_commit := commit\<rparr>)
                d (question request) (result res) s) = Inl e \<longrightarrow>
              stdout (snd (ask_question
                (E\<lparr>sqlite_connect := connect, sqlite_execute := execute, sqlite_commit := commit\<rparr>)
                request s)) = stdout s @ [''Error saving chat: '' @ exn_str e])"
proof -
  let ?E = "E\<lparr>sqlite_connect := connect, sqlite_execute := execute, sqlite_commit := commit\<rparr>"
  have r: "retrieval_qa ?E vs 3 (question request) = Inr res"
    using assms(3) by simp
  have "fst (ask_question ?E request s) =
           Inr \<lparr>answer = result res, sources = srcs, document_id = d\<rparr>"
    using ask_question_registered [OF assms(1,2), of ?E] r assms(4) by simp
  moreover have "snd (ask_question ?E request s) =
      save_chat ?E d (question request) (result res) s"
    using assms(1,2,4) r by (simp add: ask_question_def ask_question_try_def)
  ultimately show ?thesis
    by (simp add: save_chat_failure)
qed

theorem ask_question_answers_whatever_sqlite_does_witness:
  "fst (save_chat_try db_down_env ''d'' ''q'' ''yes'' (ready_state mixed_store)) =
     Inl (Exn ''OperationalError'' ''unable to open database file'') \<and>
   fst (ask_question db_down_env \<lparr>question = ''q'', document_id = Some ''d''\<rparr>
          (ready_state mixed_store)) =
     Inr \<lparr>answer = ''yes'', sources = [''Page 5'', ''Page 7''], document_id = ''d''\<rparr> \<and>
   stdout (snd (ask_question db_down_env \<lparr>question = ''q'', document_id = Some ''d''\<rparr>
          (ready_state mixed_store))) =
     [''Error saving chat: unable to open database file'']"
proof -
  let ?request = "\<lparr>question = ''q'', document_id = Some ''d''\<rparr>"
  let ?res = "\<lparr>result = ''yes'', source_documents = take 3 mixed_store\<rparr>"
  have a: "QuestionRequest.document_id ?request = Some ''d''" by simp
  have b: "vector_stores (ready_state mixed_store) ''d'' = Some mixed_store"
    by (simp add: ready_state_def)
  have c: "retrieval_qa demo_env mixed_store 3 (question ?request) = Inr ?res"
    by (simp add: demo_env_def)
  have d: "extract_sources (source_documents ?res) [] = Inr [''Page 5'', ''Page 7'']"
    by (simp add: mixed_store_def add_one_def str_int_def str_nat.simps)
  have e: "fst (save_chat_try db_down_env ''d'' ''q'' ''yes'' (ready_state mixed_store)) =
     Inl (Exn ''OperationalError'' ''unable to open database file'')"
    by (simp add: save_chat_try_def db_down_env_def)
  have f: "db_down_env =
     demo_env\<lparr>sqlite_connect :=
                 (\<lambda>name db. Inl (Exn ''OperationalError'' ''unable to open database file'')),
               sqlite_execute := sqlite_execute demo_env,
               sqlite_commit := sqlite_commit demo_env\<rparr>"
    by (simp add: db_down_env_def)
  from ask_question_answers_whatever_sqlite_does [OF a b c d,
      where connect = "\<lambda>name db. Inl (Exn ''OperationalError'' ''unable to open database file'')"
        and execute = "sqlite_execute demo_env" and commit = "sqlite_commit demo_env"] e
  show ?thesis unfolding f [symmetric]
    by (simp add: ready_state_def initial_state_def)
qed

end
